theory Spec2Isabelle
  imports Main
begin

section \<open>Status model\<close>

text \<open>
  The lifecycle binding core of package \<open>component\<close>: the status enumeration, the
  \<open>Component\<close> wrapper, and the two controller functions \<open>Start\<close> and \<open>Stop\<close>.

  How the Go code is read here. An owner holds its wrapper by a pointer that only
  \<open>Start\<close> and \<open>Stop\<close> write through; the model keeps the wrapper's content in the
  owner, and an absent wrapper is \<open>None\<close>. A call returns its named result \<open>err\<close>
  (\<open>None\<close> for nil) together with the owner and the world as the call leaves them. The
  foreign runtime is a parameter: what it holds, which of its calls throw and what a
  construction returns. A construction may do after some calls what it did not do before
  them, and the object it returns is the constructor's choice. An \<open>AfterStart\<close> hook is
  taken by its outcome alone. Panics other than faults of the foreign runtime are not
  modelled.

  \<open>ComponentStatus\<close> is the Go enumeration \<open>Uninitialized = iota\<close>, \<open>Stopped\<close>,
  \<open>Running\<close>; the zero value of the type is \<open>Uninitialized\<close>.
\<close>

datatype ComponentStatus = Uninitialized | Stopped | Running

text \<open>
  A \<open>*js.Object\<close>: the Go nil pointer (JavaScript \<open>null\<close>), \<open>js.Undefined\<close>, or a
  JavaScript object, known by its identity.
\<close>

datatype jsval = Null | Undefined | Obj nat

text \<open>\<open>type Component struct { mdc *js.Object; status ComponentStatus }\<close>\<close>

record Component =
  mdc :: jsval
  status :: ComponentStatus

text \<open>\<open>func (s ComponentStatus) String() string\<close>\<close>

fun String_ComponentStatus :: "ComponentStatus \<Rightarrow> string" where
  "String_ComponentStatus Stopped = ''stopped''"
| "String_ComponentStatus Running = ''running''"
| "String_ComponentStatus Uninitialized = ''uninitialized''"

text \<open>\<open>func (c *Component) Status() ComponentStatus\<close>\<close>

definition Status :: "Component \<Rightarrow> ComponentStatus" where
  "Status k = status k"

text \<open>
  \<open>func (c *Component) String() string\<close>. The receiver is a pointer that may be nil:
  \<open>None\<close> is the nil wrapper, which renders as \<open>Uninitialized\<close>.
\<close>

definition String_Component :: "Component option \<Rightarrow> string" where
  "String_Component c =
     (case c of
        None \<Rightarrow> String_ComponentStatus Uninitialized
      | Some k \<Rightarrow>
          if status k = Uninitialized then String_ComponentStatus Uninitialized
          else String_ComponentStatus (Status k))"

section \<open>Errors and faults\<close>

text \<open>
  A fault is a JavaScript exception, which GopherJS raises in Go as a panic carrying a
  \<open>*js.Error\<close>: either the \<open>TypeError\<close> of the engine (a property read or a call on
  \<open>null\<close> or \<open>undefined\<close>, \<open>new\<close> on a value that is not a constructor), or a value
  thrown by the foreign code itself.

  A Go \<open>error\<close> is either made by \<open>errors.New\<close> with its message, or a \<open>*js.Error\<close>
  that was recovered.
\<close>

datatype fault = TypeError | Thrown string

datatype error = errors_New string | js_Error fault

text \<open>
  How a function body is left: by a \<open>return\<close> of the named result \<open>err\<close>, or by a
  panic that carries a fault.
\<close>

datatype exit = Return "error option" | Panic fault

text \<open>
  Modelled from the spec: \<open>gojs.CatchException\<close> belongs to the imported package
  \<open>agamigo.io/gojs\<close>. Both \<open>Start\<close> and \<open>Stop\<close> defer it on their named result. The
  spec's Foreign-Call Guard: a fault raised during the call is intercepted and becomes
  the returned error, carrying the original fault; a normal return is left as it is.
\<close>

definition CatchException :: "exit \<Rightarrow> error option" where
  "CatchException x = (case x of Return err \<Rightarrow> err | Panic f \<Rightarrow> Some (js_Error f))"

section \<open>The foreign runtime\<close>

text \<open>
  The calls that cross into JavaScript, as \<open>Start\<close> and \<open>Stop\<close> make them through
  \<open>github.com/gopherjs/gopherjs/js\<close>: \<open>js.Global.Get(name)\<close>, \<open>o.Get(name)\<close>,
  \<open>o.New(arg)\<close> and \<open>o.Call(name)\<close>.
\<close>

datatype jscall =
    Global_Get string
  | Get jsval string
  | New jsval jsval
  | Call jsval string

text \<open>
  The behaviour of the foreign runtime, which the core takes as given: the properties of
  the global object, the properties of every object, whether calling a method of an object
  throws, and what \<open>new\<close> on a class with an argument does after the foreign calls made so
  far. A construction throws or returns an object; which object is up to the constructor
  (a new one each time, or one it has kept), and a construction that went well once may
  throw the next time.
\<close>

record runtime =
  global_prop :: "string \<Rightarrow> jsval"
  obj_prop :: "nat \<Rightarrow> string \<Rightarrow> jsval"
  new_result :: "jscall list \<Rightarrow> nat \<Rightarrow> jsval \<Rightarrow> fault + nat"
  call_fault :: "nat \<Rightarrow> string \<Rightarrow> fault option"

text \<open>
  What changes outside the owner during a call: \<open>constructed\<close> counts the constructions
  that have returned an object, \<open>calls\<close> records every foreign call in the order it is
  made, and \<open>status_log\<close> records every write to an owner's status as the pair of the
  status before (\<open>None\<close> when there was no wrapper) and the status written.
\<close>

record world =
  constructed :: nat
  calls :: "jscall list"
  status_log :: "(ComponentStatus option \<times> ComponentStatus) list"

definition js_Global_Get :: "runtime \<Rightarrow> string \<Rightarrow> world \<Rightarrow> jsval \<times> world" where
  "js_Global_Get rt name w = (global_prop rt name, w\<lparr>calls := calls w @ [Global_Get name]\<rparr>)"

definition js_Get :: "runtime \<Rightarrow> jsval \<Rightarrow> string \<Rightarrow> world \<Rightarrow> (fault + jsval) \<times> world" where
  "js_Get rt v name w =
     (case v of
        Obj i \<Rightarrow> (Inr (obj_prop rt i name), w\<lparr>calls := calls w @ [Get v name]\<rparr>)
      | _ \<Rightarrow> (Inl TypeError, w\<lparr>calls := calls w @ [Get v name]\<rparr>))"

definition js_New :: "runtime \<Rightarrow> jsval \<Rightarrow> jsval \<Rightarrow> world \<Rightarrow> (fault + jsval) \<times> world" where
  "js_New rt cls arg w =
     (case cls of
        Obj i \<Rightarrow>
          (case new_result rt (calls w) i arg of
             Inl f \<Rightarrow> (Inl f, w\<lparr>calls := calls w @ [New cls arg]\<rparr>)
           | Inr j \<Rightarrow>
               (Inr (Obj j),
                w\<lparr>constructed := Suc (constructed w), calls := calls w @ [New cls arg]\<rparr>))
      | _ \<Rightarrow> (Inl TypeError, w\<lparr>calls := calls w @ [New cls arg]\<rparr>))"

definition js_Call :: "runtime \<Rightarrow> jsval \<Rightarrow> string \<Rightarrow> world \<Rightarrow> (fault + unit) \<times> world" where
  "js_Call rt v name w =
     (case v of
        Obj i \<Rightarrow>
          (case call_fault rt i name of
             Some f \<Rightarrow> (Inl f, w\<lparr>calls := calls w @ [Call v name]\<rparr>)
           | None \<Rightarrow> (Inr (), w\<lparr>calls := calls w @ [Call v name]\<rparr>))
      | _ \<Rightarrow> (Inl TypeError, w\<lparr>calls := calls w @ [Call v name]\<rparr>))"

section \<open>Owners\<close>

text \<open>
  \<open>ComponentType\<close> is declared in another file of the package; \<open>Start\<close> reads its two
  string fields, and \<open>toolbar.T\<close> fills them.
\<close>

record ComponentType =
  MDCClassName :: string
  MDCCamelCaseName :: string

text \<open>
  What \<open>AfterStart() error\<close> does when \<open>Start\<close> calls it: it returns nil or an error, or
  it panics with a fault of the foreign runtime.
\<close>

datatype hook = HookReturns "error option" | HookPanics fault

text \<open>
  An owner is a value of interface \<open>Componenter\<close>. \<open>component\<close> is the pointer that
  \<open>GetComponent\<close> returns and \<open>SetComponent\<close> replaces (as \<open>toolbar.T\<close> implements them on
  its embedded \<open>*component.Component\<close>), \<open>None\<close> being nil. The other three fields say
  which of the optional interfaces the owner's type implements, and what the method
  gives: \<open>MDCClass\<close> for \<open>MDCClasser\<close>, \<open>ComponentType\<close> for \<open>ComponentTyper\<close>,
  \<open>AfterStart\<close> for \<open>AfterStarter\<close>.
\<close>

record Componenter =
  component :: "Component option"
  MDCClass :: "jsval option"
  ComponentType :: "ComponentType option"
  AfterStart :: "hook option"

definition GetComponent :: "Componenter \<Rightarrow> Component option" where
  "GetComponent c = component c"

definition SetComponent :: "Component \<Rightarrow> Componenter \<times> world \<Rightarrow> Componenter \<times> world" where
  "SetComponent k cw =
     (case cw of (c, w) \<Rightarrow>
        (c\<lparr>component := Some k\<rparr>,
         w\<lparr>status_log := status_log w @ [(map_option status (component c), status k)]\<rparr>))"

section \<open>Stop\<close>

text \<open>
  \<open>func Stop(c Componenter) (err error)\<close>. The body checks the wrapper and its status,
  calls \<open>destroy\<close> on the stored object, and replaces the wrapper by
  \<open>&Component{status: Stopped}\<close>. A fault of \<open>destroy\<close> leaves the body before the
  replacement.
\<close>

definition Stop_body :: "runtime \<Rightarrow> Componenter \<Rightarrow> world \<Rightarrow> exit \<times> Componenter \<times> world" where
  "Stop_body rt c w =
     (case GetComponent c of
        None \<Rightarrow> (Return (Some (errors_New ''GetComponent() returned nil.'')), c, w)
      | Some k \<Rightarrow>
          (case status k of
             Stopped \<Rightarrow> (Return (Some (errors_New ''Component already stopped'')), c, w)
           | Uninitialized \<Rightarrow> (Return (Some (errors_New ''Component is uninitialized'')), c, w)
           | Running \<Rightarrow>
               (case js_Call rt (mdc k) ''destroy'' w of
                  (Inl f, w1) \<Rightarrow> (Panic f, c, w1)
                | (Inr _, w1) \<Rightarrow>
                    (case SetComponent \<lparr>mdc = Null, status = Stopped\<rparr> (c, w1) of
                       (c2, w2) \<Rightarrow> (Return None, c2, w2)))))"

definition Stop :: "runtime \<Rightarrow> Componenter \<Rightarrow> world \<Rightarrow> error option \<times> Componenter \<times> world" where
  "Stop rt c w = (case Stop_body rt c w of (x, c', w') \<Rightarrow> (CatchException x, c', w'))"

section \<open>Start\<close>

text \<open>
  The first type switch of \<open>Start\<close>: \<open>MDCClasser\<close> is tried first, then
  \<open>ComponentTyper\<close>, whose two names are looked up under the global \<open>mdc\<close>. The result is
  the class object, or the way the body is left.
\<close>

definition resolve :: "runtime \<Rightarrow> Componenter \<Rightarrow> world \<Rightarrow> (exit + jsval) \<times> world" where
  "resolve rt c w =
     (case MDCClass c of
        Some cls \<Rightarrow> (Inr cls, w)
      | None \<Rightarrow>
          (case ComponentType c of
             Some t \<Rightarrow>
               (if MDCCamelCaseName t = [] \<or> MDCClassName t = []
                then (Inl (Return (Some (errors_New ''Empty string in ComponentType''))), w)
                else
                  (case js_Global_Get rt ''mdc'' w of
                     (mdcObject, w1) \<Rightarrow>
                       (case js_Get rt mdcObject (MDCCamelCaseName t) w1 of
                          (Inl f, w2) \<Rightarrow> (Inl (Panic f), w2)
                        | (Inr ns, w2) \<Rightarrow>
                            (case js_Get rt ns (MDCClassName t) w2 of
                               (Inl f, w3) \<Rightarrow> (Inl (Panic f), w3)
                             | (Inr cls, w3) \<Rightarrow> (Inr cls, w3)))))
           | None \<Rightarrow>
               (Inl (Return (Some (errors_New
                  ''The provided component does not implement component.ComponentTyper or component.MDCClasser.''))),
                w)))"

text \<open>
  The second type switch: the \<open>AfterStarter\<close> hook, and \<open>Stop(c)\<close> when it returns an
  error. The result of that \<open>Stop\<close> is dropped and the hook's error is returned.
\<close>

definition after_start :: "runtime \<Rightarrow> Componenter \<Rightarrow> world \<Rightarrow> exit \<times> Componenter \<times> world" where
  "after_start rt c w =
     (case AfterStart c of
        None \<Rightarrow> (Return None, c, w)
      | Some (HookPanics f) \<Rightarrow> (Panic f, c, w)
      | Some (HookReturns None) \<Rightarrow> (Return None, c, w)
      | Some (HookReturns (Some e)) \<Rightarrow>
          (case Stop rt c w of (_, c', w') \<Rightarrow> (Return (Some e), c', w')))"

text \<open>
  The part of \<open>Start\<close> after its first switch. \<open>k\<close> is the wrapper that
  \<open>c.GetComponent()\<close> points to there: the one found, or the one just allocated. The two
  assignments \<open>c.GetComponent().mdc = newMDCObj\<close> and
  \<open>c.GetComponent().status = Running\<close> follow the construction.
\<close>

definition Start_create ::
    "runtime \<Rightarrow> jsval \<Rightarrow> Component \<Rightarrow> Componenter \<times> world \<Rightarrow> exit \<times> Componenter \<times> world" where
  "Start_create rt rootElem k cw =
     (case cw of (c, w) \<Rightarrow>
        (case resolve rt c w of
           (Inl x, w1) \<Rightarrow> (x, c, w1)
         | (Inr newMDCClassObj, w1) \<Rightarrow>
             (case js_New rt newMDCClassObj rootElem w1 of
                (Inl f, w2) \<Rightarrow> (Panic f, c, w2)
              | (Inr newMDCObj, w2) \<Rightarrow>
                  after_start rt
                    (c\<lparr>component := Some (k\<lparr>mdc := newMDCObj, status := Running\<rparr>)\<rparr>)
                    (w2\<lparr>status_log := status_log w2 @ [(Some (status k), Running)]\<rparr>))))"

text \<open>
  \<open>func Start(c Componenter, rootElem *js.Object) (err error)\<close>. The first switch takes
  the first case that holds: a nil or undefined \<open>rootElem\<close>, then a nil wrapper (replaced
  by \<open>&Component{}\<close>, the zero value), then a Running wrapper.
\<close>

definition Start_body ::
    "runtime \<Rightarrow> Componenter \<Rightarrow> jsval \<Rightarrow> world \<Rightarrow> exit \<times> Componenter \<times> world" where
  "Start_body rt c rootElem w =
     (if rootElem = Null \<or> rootElem = Undefined
      then (Return (Some (errors_New ''rootElem is nil.'')), c, w)
      else
        (case GetComponent c of
           None \<Rightarrow>
             Start_create rt rootElem \<lparr>mdc = Null, status = Uninitialized\<rparr>
               (SetComponent \<lparr>mdc = Null, status = Uninitialized\<rparr> (c, w))
         | Some k \<Rightarrow>
             if status k = Running
             then (Return (Some (errors_New ''Component already started.'')), c, w)
             else Start_create rt rootElem k (c, w)))"

definition Start ::
    "runtime \<Rightarrow> Componenter \<Rightarrow> jsval \<Rightarrow> world \<Rightarrow> error option \<times> Componenter \<times> world" where
  "Start rt c rootElem w =
     (case Start_body rt c rootElem w of (x, c', w') \<Rightarrow> (CatchException x, c', w'))"

section \<open>Observations on a call\<close>

text \<open>
  The foreign calls and the status writes a call has added, given the world before and
  after it.
\<close>

definition new_calls :: "world \<Rightarrow> world \<Rightarrow> jscall list" where
  "new_calls w w' = drop (length (calls w)) (calls w')"

definition new_log :: "world \<Rightarrow> world \<Rightarrow> (ComponentStatus option \<times> ComponentStatus) list" where
  "new_log w w' = drop (length (status_log w)) (status_log w')"

fun is_destroy :: "jscall \<Rightarrow> bool" where
  "is_destroy (Call v name) = (name = ''destroy'')"
| "is_destroy (Global_Get name) = False"
| "is_destroy (Get v name) = False"
| "is_destroy (New cls arg) = False"

fun is_New :: "jscall \<Rightarrow> bool" where
  "is_New (New cls arg) = True"
| "is_New (Global_Get name) = False"
| "is_New (Get v name) = False"
| "is_New (Call v name) = False"

fun is_lookup :: "jscall \<Rightarrow> bool" where
  "is_lookup (Global_Get name) = True"
| "is_lookup (Get v name) = True"
| "is_lookup (New cls arg) = False"
| "is_lookup (Call v name) = False"

text \<open>
  What the first type switch of \<open>Start\<close> gives for an owner, and the foreign calls it
  makes on the way: neither depends on the world it starts in.
\<close>

definition resolve_result :: "runtime \<Rightarrow> Componenter \<Rightarrow> exit + jsval" where
  "resolve_result rt c = fst (resolve rt c \<lparr>constructed = 0, calls = [], status_log = []\<rparr>)"

definition resolve_calls :: "runtime \<Rightarrow> Componenter \<Rightarrow> jscall list" where
  "resolve_calls rt c = calls (snd (resolve rt c \<lparr>constructed = 0, calls = [], status_log = []\<rparr>))"

text \<open>
  What \<open>cls.New(arg)\<close> gives in a runtime after the foreign calls \<open>cs\<close>: the fault it
  raises, or the object it returns.
\<close>

definition construct_result :: "runtime \<Rightarrow> jsval \<Rightarrow> jsval \<Rightarrow> jscall list \<Rightarrow> fault + jsval" where
  "construct_result rt cls arg cs =
     (case cls of
        Obj i \<Rightarrow> (case new_result rt cs i arg of Inl f \<Rightarrow> Inl f | Inr j \<Rightarrow> Inr (Obj j))
      | _ \<Rightarrow> Inl TypeError)"

text \<open>The fault that \<open>v.Call("destroy")\<close> raises in a runtime, if it raises one.\<close>

definition destroy_fault :: "runtime \<Rightarrow> jsval \<Rightarrow> fault option" where
  "destroy_fault rt v = (case v of Obj i \<Rightarrow> call_fault rt i ''destroy'' | _ \<Rightarrow> Some TypeError)"

text \<open>
  The status changes that the code performs: a fresh wrapper with the zero status where
  there was none, Running written over Uninitialized or Stopped, and Stopped written
  over Running.
\<close>

fun transition_ok :: "ComponentStatus option \<times> ComponentStatus \<Rightarrow> bool" where
  "transition_ok (None, s) = (s = Uninitialized)"
| "transition_ok (Some Uninitialized, s) = (s = Running)"
| "transition_ok (Some Stopped, s) = (s = Running)"
| "transition_ok (Some Running, s) = (s = Stopped)"

text \<open>Invariant 1 of the data model: a handle is stored exactly in status Running.\<close>

definition wrapper_inv :: "Componenter \<Rightarrow> bool" where
  "wrapper_inv c =
     (case GetComponent c of None \<Rightarrow> True | Some k \<Rightarrow> (mdc k \<noteq> Null) = (status k = Running))"

text \<open>
  The world after the constructor has run in a \<open>Start\<close> that began in \<open>w\<close>: one
  more object, the lookups and the \<open>New\<close> in the call record, and the status writes (the
  allocation of the wrapper, when there was none, and Running).
\<close>

definition started_world :: "runtime \<Rightarrow> Componenter \<Rightarrow> jsval \<Rightarrow> jsval \<Rightarrow> world \<Rightarrow> world" where
  "started_world rt c cls rootElem w =
     w\<lparr>constructed := Suc (constructed w),
       calls := calls w @ resolve_calls rt c @ [New cls rootElem],
       status_log := status_log w @
         (case GetComponent c of
            None \<Rightarrow> [(None, Uninitialized), (Some Uninitialized, Running)]
          | Some k \<Rightarrow> [(Some (status k), Running)])\<rparr>"

text \<open>The first switch of \<open>Start\<close> lets the call through to the resolution.\<close>

definition passes_guard :: "Componenter \<Rightarrow> jsval \<Rightarrow> bool" where
  "passes_guard c rootElem =
     (rootElem \<noteq> Null \<and> rootElem \<noteq> Undefined \<and>
      (case GetComponent c of None \<Rightarrow> True | Some k \<Rightarrow> status k \<noteq> Running))"

text \<open>A sequence of calls on one owner, each run to completion.\<close>

datatype lifecycle_call = CallStart jsval | CallStop

fun run :: "runtime \<Rightarrow> lifecycle_call list \<Rightarrow> Componenter \<times> world \<Rightarrow> Componenter \<times> world" where
  "run rt [] cw = cw"
| "run rt (CallStart rootElem # cs) cw = run rt cs (snd (Start rt (fst cw) rootElem (snd cw)))"
| "run rt (CallStop # cs) cw = run rt cs (snd (Stop rt (fst cw) (snd cw)))"

section \<open>Concrete owners and runtimes\<close>

text \<open>
  A runtime in which the all-in-one library is the global \<open>mdc\<close> (object 0), with the
  namespace \<open>textField\<close> (object 1) that holds the class \<open>MDCTextField\<close> (object 2), and
  in which nothing throws. Each construction returns a new object: object 10 first, then
  object 11, and so on.
\<close>

definition rt_mdc :: runtime where
  "rt_mdc =
     \<lparr>global_prop = (\<lambda>name. if name = ''mdc'' then Obj 0 else Undefined),
      obj_prop = (\<lambda>i name.
         if i = 0 \<and> name = ''textField'' then Obj 1
         else if i = 1 \<and> name = ''MDCTextField'' then Obj 2
         else Undefined),
      new_result = (\<lambda>cs i arg.
         if i = 2 then Inr (10 + length (filter is_New cs)) else Inl TypeError),
      call_fault = (\<lambda>i name. None)\<rparr>"

text \<open>The same runtime, except that every \<open>destroy\<close> throws.\<close>

definition rt_destroy_throws :: runtime where
  "rt_destroy_throws =
     rt_mdc\<lparr>call_fault := (\<lambda>i name. if name = ''destroy'' then Some (Thrown ''destroy failed'') else None)\<rparr>"

text \<open>
  The same runtime, except that the constructor keeps one instance, object 10, and returns
  it from every construction.
\<close>

definition rt_cached :: runtime where
  "rt_cached = rt_mdc\<lparr>new_result := (\<lambda>cs i arg. if i = 2 then Inr 10 else Inl TypeError)\<rparr>"

text \<open>
  The same runtime, except that the constructor throws once an object has been
  constructed before.
\<close>

definition rt_once :: runtime where
  "rt_once =
     rt_mdc\<lparr>new_result := (\<lambda>cs i arg.
        if i \<noteq> 2 then Inl TypeError
        else if filter is_New cs = [] then Inr 10
        else Inl (Thrown ''already attached''))\<rparr>"

definition w0 :: world where
  "w0 = \<lparr>constructed = 0, calls = [], status_log = []\<rparr>"

text \<open>The mount point of the examples: an element of the document, object 7.\<close>

definition root7 :: jsval where
  "root7 = Obj 7"

text \<open>
  \<open>toolbar.T\<close> before its first \<open>Start\<close>: the embedded pointer is nil, and the type
  implements \<open>ComponentTyper\<close> with the names of \<open>toolbar.go\<close>.
\<close>

definition toolbar_T :: Componenter where
  "toolbar_T =
     \<lparr>component = None, MDCClass = None,
      ComponentType = Some \<lparr>MDCClassName = ''MDCTextField'', MDCCamelCaseName = ''textField''\<rparr>,
      AfterStart = None\<rparr>"

text \<open>An owner that implements none of the optional interfaces.\<close>

definition bare_owner :: Componenter where
  "bare_owner = \<lparr>component = None, MDCClass = None, ComponentType = None, AfterStart = None\<rparr>"

text \<open>An owner whose \<open>AfterStart\<close> returns an error.\<close>

definition hook_error :: error where
  "hook_error = errors_New ''AfterStart failed''"

definition toolbar_failing_hook :: Componenter where
  "toolbar_failing_hook = toolbar_T\<lparr>AfterStart := Some (HookReturns (Some hook_error))\<rparr>"

text \<open>An owner that implements both \<open>MDCClasser\<close> and \<open>ComponentTyper\<close>.\<close>

definition toolbar_with_class :: Componenter where
  "toolbar_with_class = toolbar_T\<lparr>MDCClass := Some (Obj 2)\<rparr>"

text \<open>An owner whose \<open>AfterStart\<close> panics with a fault.\<close>

definition toolbar_panicking_hook :: Componenter where
  "toolbar_panicking_hook = toolbar_T\<lparr>AfterStart := Some (HookPanics (Thrown ''AfterStart threw''))\<rparr>"

text \<open>An owner with the Named Lookup only, whose class name is the empty string.\<close>

definition toolbar_unnamed :: Componenter where
  "toolbar_unnamed =
     toolbar_T\<lparr>ComponentType := Some \<lparr>MDCClassName = [], MDCCamelCaseName = ''textField''\<rparr>\<rparr>"

text \<open>
  A Running wrapper that holds object 10, the toolbar that owns it, and the world in which
  \<open>Start\<close> has made it from \<open>toolbar_T\<close> in \<open>w0\<close>.
\<close>

definition running_wrapper :: Component where
  "running_wrapper = \<lparr>mdc = Obj 10, status = Running\<rparr>"

definition running_toolbar :: Componenter where
  "running_toolbar = toolbar_T\<lparr>component := Some running_wrapper\<rparr>"

definition w_started :: world where
  "w_started =
     \<lparr>constructed = 1,
      calls = [Global_Get ''mdc'', Get (Obj 0) ''textField'', Get (Obj 1) ''MDCTextField'',
               New (Obj 2) root7],
      status_log = [(None, Uninitialized), (Some Uninitialized, Running)]\<rparr>"

text \<open>
  A toolbar after a successful \<open>Stop\<close>, and the world in which \<open>Stop\<close> has made it from
  \<open>running_toolbar\<close> in \<open>w_started\<close>.
\<close>

definition stopped_toolbar :: Componenter where
  "stopped_toolbar = toolbar_T\<lparr>component := Some \<lparr>mdc = Null, status = Stopped\<rparr>\<rparr>"

definition w_stopped :: world where
  "w_stopped =
     \<lparr>constructed = 1,
      calls = [Global_Get ''mdc'', Get (Obj 0) ''textField'', Get (Obj 1) ''MDCTextField'',
               New (Obj 2) root7, Call (Obj 10) ''destroy''],
      status_log = [(None, Uninitialized), (Some Uninitialized, Running),
                    (Some Running, Stopped)]\<rparr>"

section \<open>Basic facts\<close>

lemmas model_splits =
  option.splits if_splits prod.splits sum.splits jsval.splits hook.splits ComponentStatus.splits

lemmas example_defs =
  rt_mdc_def rt_destroy_throws_def rt_cached_def rt_once_def w0_def root7_def toolbar_T_def bare_owner_def hook_error_def
  toolbar_failing_hook_def toolbar_with_class_def toolbar_panicking_hook_def toolbar_unnamed_def
  running_wrapper_def running_toolbar_def w_started_def stopped_toolbar_def w_stopped_def

lemmas model_defs =
  Start_def Start_body_def Start_create_def after_start_def resolve_def Stop_def Stop_body_def
  SetComponent_def GetComponent_def CatchException_def js_Global_Get_def js_Get_def js_New_def
  js_Call_def

lemma Component_update_all: "(k::Component)\<lparr>mdc := a, status := b\<rparr> = \<lparr>mdc = a, status = b\<rparr>"
  by (cases k) simp

subsection \<open>The foreign calls\<close>

lemma js_Call_destroy:
  "js_Call rt v ''destroy'' w =
     ((case destroy_fault rt v of Some f \<Rightarrow> Inl f | None \<Rightarrow> Inr ()),
      w\<lparr>calls := calls w @ [Call v ''destroy'']\<rparr>)"
  by (simp add: js_Call_def destroy_fault_def split: jsval.splits option.splits)

lemma js_New_eq:
  "js_New rt cls arg w =
     (case construct_result rt cls arg (calls w) of
        Inl f \<Rightarrow> (Inl f, w\<lparr>calls := calls w @ [New cls arg]\<rparr>)
      | Inr h \<Rightarrow>
          (Inr h, w\<lparr>constructed := Suc (constructed w), calls := calls w @ [New cls arg]\<rparr>))"
  by (simp add: js_New_def construct_result_def split: jsval.splits sum.splits)

lemma construct_result_Obj: "construct_result rt cls arg cs = Inr h \<Longrightarrow> h \<noteq> Null"
  by (auto simp add: construct_result_def split: jsval.splits sum.splits)

lemma filter_is_destroy_lookup: "list_all is_lookup cs \<Longrightarrow> filter is_destroy cs = []"
  by (induction cs) (auto elim: is_lookup.elims)

lemma filter_is_New_lookup: "list_all is_lookup cs \<Longrightarrow> filter is_New cs = []"
  by (induction cs) (auto elim: is_lookup.elims)

subsection \<open>Stop, case by case\<close>

lemma Stop_nil:
  assumes "GetComponent c = None"
  shows "Stop rt c w = (Some (errors_New ''GetComponent() returned nil.''), c, w)"
  using assms by (simp add: Stop_def Stop_body_def CatchException_def)

lemma Stop_not_Running:
  assumes "GetComponent c = Some k" and "status k \<noteq> Running"
  shows "Stop rt c w =
     (Some (errors_New (if status k = Stopped then ''Component already stopped''
                        else ''Component is uninitialized'')), c, w)"
  using assms
  by (simp add: Stop_def Stop_body_def CatchException_def split: ComponentStatus.splits)

lemma Stop_Running:
  assumes "GetComponent c = Some k" and "status k = Running"
  shows "Stop rt c w =
     (case destroy_fault rt (mdc k) of
        Some f \<Rightarrow> (Some (js_Error f), c, w\<lparr>calls := calls w @ [Call (mdc k) ''destroy'']\<rparr>)
      | None \<Rightarrow>
          (None, c\<lparr>component := Some \<lparr>mdc = Null, status = Stopped\<rparr>\<rparr>,
           w\<lparr>calls := calls w @ [Call (mdc k) ''destroy''],
             status_log := status_log w @ [(Some Running, Stopped)]\<rparr>))"
  using assms
  by (simp add: Stop_def Stop_body_def js_Call_destroy SetComponent_def GetComponent_def
      CatchException_def split: option.splits)

lemma Stop_handle:
  "Stop rt (c\<lparr>component := Some \<lparr>mdc = h, status = Running\<rparr>\<rparr>) w =
     (case destroy_fault rt h of
        Some f \<Rightarrow>
          (Some (js_Error f), c\<lparr>component := Some \<lparr>mdc = h, status = Running\<rparr>\<rparr>,
           w\<lparr>calls := calls w @ [Call h ''destroy'']\<rparr>)
      | None \<Rightarrow>
          (None, c\<lparr>component := Some \<lparr>mdc = Null, status = Stopped\<rparr>\<rparr>,
           w\<lparr>calls := calls w @ [Call h ''destroy''],
             status_log := status_log w @ [(Some Running, Stopped)]\<rparr>))"
  using Stop_Running [of "c\<lparr>component := Some \<lparr>mdc = h, status = Running\<rparr>\<rparr>"
      "\<lparr>mdc = h, status = Running\<rparr>" rt w]
  by (simp add: GetComponent_def split: option.splits)

subsection \<open>The resolution\<close>

lemma resolve_eq:
  "resolve rt c w = (resolve_result rt c, w\<lparr>calls := calls w @ resolve_calls rt c\<rparr>)"
  by (simp add: resolve_def resolve_result_def resolve_calls_def js_Global_Get_def js_Get_def
      split: option.splits jsval.splits)

lemma resolve_result_cong:
  "MDCClass c' = MDCClass c \<Longrightarrow> ComponentType c' = ComponentType c \<Longrightarrow>
   resolve_result rt c' = resolve_result rt c"
  by (simp add: resolve_result_def resolve_def cong: option.case_cong)

lemma resolve_calls_cong:
  "MDCClass c' = MDCClass c \<Longrightarrow> ComponentType c' = ComponentType c \<Longrightarrow>
   resolve_calls rt c' = resolve_calls rt c"
  by (simp add: resolve_calls_def resolve_def cong: option.case_cong)

lemma resolve_component [simp]:
  "resolve_result rt (c\<lparr>component := x\<rparr>) = resolve_result rt c"
  "resolve_calls rt (c\<lparr>component := x\<rparr>) = resolve_calls rt c"
  "resolve_result rt (c\<lparr>AfterStart := y\<rparr>) = resolve_result rt c"
  "resolve_calls rt (c\<lparr>AfterStart := y\<rparr>) = resolve_calls rt c"
  by (rule resolve_result_cong resolve_calls_cong; simp)+

lemma resolve_calls_lookup: "list_all is_lookup (resolve_calls rt c)"
  by (simp add: resolve_def resolve_calls_def js_Global_Get_def js_Get_def
      split: option.splits jsval.splits)

lemma resolve_result_Inl:
  "resolve_result rt c = Inl x \<Longrightarrow> \<exists>e. CatchException x = Some e"
  by (auto simp add: resolve_result_def resolve_def js_Global_Get_def js_Get_def
      CatchException_def split: option.splits jsval.splits if_splits)

lemma resolve_MDCClass:
  "MDCClass c = Some cls \<Longrightarrow> resolve_result rt c = Inr cls \<and> resolve_calls rt c = []"
  by (simp add: resolve_result_def resolve_calls_def resolve_def)

lemma resolve_no_capability:
  "MDCClass c = None \<Longrightarrow> ComponentType c = None \<Longrightarrow>
   resolve_result rt c = Inl (Return (Some (errors_New
     ''The provided component does not implement component.ComponentTyper or component.MDCClasser.'')))
   \<and> resolve_calls rt c = []"
  by (simp add: resolve_result_def resolve_calls_def resolve_def)

lemma resolve_empty_name:
  "MDCClass c = None \<Longrightarrow> ComponentType c = Some t \<Longrightarrow>
   MDCCamelCaseName t = [] \<or> MDCClassName t = [] \<Longrightarrow>
   resolve_result rt c = Inl (Return (Some (errors_New ''Empty string in ComponentType'')))
   \<and> resolve_calls rt c = []"
  by (auto simp add: resolve_result_def resolve_calls_def resolve_def)

subsection \<open>Start, phase by phase\<close>

lemma after_start_cases:
  "after_start rt c w =
     (case AfterStart c of
        None \<Rightarrow> (Return None, c, w)
      | Some (HookPanics f) \<Rightarrow> (Panic f, c, w)
      | Some (HookReturns None) \<Rightarrow> (Return None, c, w)
      | Some (HookReturns (Some e)) \<Rightarrow> (Return (Some e), snd (Stop rt c w)))"
  by (simp add: after_start_def split: model_splits)

lemma Start_create_eq:
  "Start_create rt rootElem k (c, w) =
     (case resolve_result rt c of
        Inl x \<Rightarrow> (x, c, w\<lparr>calls := calls w @ resolve_calls rt c\<rparr>)
      | Inr cls \<Rightarrow>
          (case construct_result rt cls rootElem (calls w @ resolve_calls rt c) of
             Inl f \<Rightarrow>
               (Panic f, c, w\<lparr>calls := calls w @ resolve_calls rt c @ [New cls rootElem]\<rparr>)
           | Inr h \<Rightarrow>
               after_start rt
                 (c\<lparr>component := Some \<lparr>mdc = h, status = Running\<rparr>\<rparr>)
                 (w\<lparr>constructed := Suc (constructed w),
                    calls := calls w @ resolve_calls rt c @ [New cls rootElem],
                    status_log := status_log w @ [(Some (status k), Running)]\<rparr>)))"
  by (simp add: Start_create_def resolve_eq js_New_eq Component_update_all split: model_splits)

lemma Start_blocked:
  assumes "\<not> passes_guard c rootElem"
  shows "Start rt c rootElem w =
     (Some (errors_New (if rootElem = Null \<or> rootElem = Undefined then ''rootElem is nil.''
                        else ''Component already started.'')), c, w)"
  using assms
  by (auto simp add: Start_def Start_body_def passes_guard_def GetComponent_def
      CatchException_def split: option.splits)

lemma Start_guard:
  assumes "passes_guard c rootElem"
  shows "Start rt c rootElem w =
     (case (case GetComponent c of
              None \<Rightarrow>
                Start_create rt rootElem \<lparr>mdc = Null, status = Uninitialized\<rparr>
                  (c\<lparr>component := Some \<lparr>mdc = Null, status = Uninitialized\<rparr>\<rparr>,
                   w\<lparr>status_log := status_log w @ [(None, Uninitialized)]\<rparr>)
            | Some k \<Rightarrow> Start_create rt rootElem k (c, w)) of
        (x, c', w') \<Rightarrow> (CatchException x, c', w'))"
  using assms
  by (simp add: Start_def Start_body_def passes_guard_def SetComponent_def GetComponent_def
      split: option.splits)

lemma passes_guard_AfterStart [simp]:
  "passes_guard (c\<lparr>AfterStart := y\<rparr>) rootElem = passes_guard c rootElem"
  by (simp add: passes_guard_def GetComponent_def)

lemma started_world_AfterStart [simp]:
  "started_world rt (c\<lparr>AfterStart := y\<rparr>) cls rootElem w = started_world rt c cls rootElem w"
  by (simp add: started_world_def GetComponent_def)

lemma filter_destroy_started:
  "filter is_destroy (new_calls w (started_world rt c cls rootElem w)) = []"
  using resolve_calls_lookup [of rt c]
  by (simp add: started_world_def new_calls_def filter_is_destroy_lookup)

text \<open>Once the constructor has run, what is left of \<open>Start\<close> is the hook.\<close>

lemma Start_constructed:
  assumes "passes_guard c rootElem"
      and "resolve_result rt c = Inr cls"
      and "construct_result rt cls rootElem (calls w @ resolve_calls rt c) = Inr h"
  shows "Start rt c rootElem w =
     (case after_start rt (c\<lparr>component := Some \<lparr>mdc = h, status = Running\<rparr>\<rparr>)
             (started_world rt c cls rootElem w) of
        (x, c', w') \<Rightarrow> (CatchException x, c', w'))"
  using assms
  by (cases "GetComponent c")
    (simp_all add: Start_guard Start_create_eq started_world_def)

text \<open>A \<open>Start\<close> that returns nil has gone all the way.\<close>

lemma Start_success:
  assumes "Start rt c rootElem w = (None, c1, w1)"
  shows "passes_guard c rootElem \<and>
         (\<exists>cls h. resolve_result rt c = Inr cls \<and>
            construct_result rt cls rootElem (calls w @ resolve_calls rt c) = Inr h \<and>
            w1 = started_world rt c cls rootElem w \<and>
            c1 = c\<lparr>component := Some \<lparr>mdc = h, status = Running\<rparr>\<rparr>) \<and>
         (AfterStart c = None \<or> AfterStart c = Some (HookReturns None))"
proof (cases "passes_guard c rootElem")
  case False
  with assms show ?thesis by (simp add: Start_blocked)
next
  case True
  show ?thesis
    using assms True
    by (cases "GetComponent c")
      (auto simp add: Start_guard Start_create_eq after_start_cases started_world_def
        dest!: resolve_result_Inl split: model_splits, auto simp: CatchException_def)
qed

lemma transition_ok_Running: "s \<noteq> Running \<Longrightarrow> transition_ok (Some s, Running)"
  by (cases s) simp_all

lemma Start_wrapper_inv:
  assumes "wrapper_inv c"
  shows "wrapper_inv (fst (snd (Start rt c rootElem w)))"
proof (cases "passes_guard c rootElem")
  case False
  with assms show ?thesis by (simp add: Start_blocked)
next
  case True
  then show ?thesis
    using assms
    by (cases "GetComponent c")
      (auto simp add: Start_guard Start_create_eq after_start_cases Stop_handle
          CatchException_def wrapper_inv_def GetComponent_def
          dest: construct_result_Obj split: model_splits)
qed

lemma Stop_wrapper_inv:
  assumes "wrapper_inv c"
  shows "wrapper_inv (fst (snd (Stop rt c w)))"
proof (cases "GetComponent c")
  case None
  with assms show ?thesis by (simp add: Stop_nil)
next
  case (Some k)
  with assms show ?thesis
    by (cases "status k = Running")
      (simp_all add: Stop_Running Stop_not_Running wrapper_inv_def GetComponent_def
        split: option.splits)
qed

section \<open>The post-init hook\<close>

text \<open>
  Claim C1, as the code has it. Take an owner whose \<open>AfterStart\<close> returns an error \<open>e\<close>,
  in a \<open>Start\<close> that succeeds when the hook is taken away. Then \<open>Start\<close> returns exactly
  \<open>e\<close>; the wrapper had become Running with a handle \<open>h\<close>; the only \<open>destroy\<close> among the
  foreign calls of the whole \<open>Start\<close> is the one on \<open>h\<close>, made by the inner \<open>Stop\<close>. The
  wrapper ends as a new Stopped wrapper without a handle when that \<open>destroy\<close> does not
  throw. When it throws, the inner \<open>Stop\<close> fails, its error is dropped, and the wrapper is
  left as it was, Running with \<open>h\<close>.
\<close>

theorem C1_hook_error_rollback:
  assumes hook: "AfterStart c = Some (HookReturns (Some e))"
      and ok: "Start rt (c\<lparr>AfterStart := None\<rparr>) rootElem w = (None, c1, w1)"
  shows "\<exists>c' w' h. Start rt c rootElem w = (Some e, c', w') \<and>
           GetComponent c1 = Some \<lparr>mdc = h, status = Running\<rparr> \<and>
           filter is_destroy (new_calls w w') = [Call h ''destroy''] \<and>
           (destroy_fault rt h = None \<longrightarrow>
              GetComponent c' = Some \<lparr>mdc = Null, status = Stopped\<rparr>) \<and>
           (destroy_fault rt h \<noteq> None \<longrightarrow> GetComponent c' = GetComponent c1)"
proof -
  from Start_success [OF ok] obtain cls h where
    g: "passes_guard c rootElem" and r: "resolve_result rt c = Inr cls"
    and n: "construct_result rt cls rootElem (calls w @ resolve_calls rt c) = Inr h"
    and w1: "w1 = started_world rt c cls rootElem w"
    and c1: "c1 = c\<lparr>AfterStart := None, component := Some \<lparr>mdc = h, status = Running\<rparr>\<rparr>"
    by auto
  have lk: "filter is_destroy (resolve_calls rt c) = []"
    using resolve_calls_lookup [of rt c] by (simp add: filter_is_destroy_lookup)
  show ?thesis
    using hook lk
    by (simp add: Start_constructed [OF g r n] after_start_cases CatchException_def w1 c1
        Stop_handle GetComponent_def started_world_def new_calls_def split: option.splits)
qed

text \<open>
  The toolbar with a failing hook, in the runtime where nothing throws: \<open>Start\<close> returns
  the hook's error, \<open>destroy\<close> is called once, on object 10, and the wrapper is Stopped.
\<close>

theorem C1_wit_toolbar:
  "AfterStart toolbar_failing_hook = Some (HookReturns (Some hook_error)) \<and>
   Start rt_mdc (toolbar_failing_hook\<lparr>AfterStart := None\<rparr>) root7 w0 =
     (None, running_toolbar, w_started) \<and>
   fst (Start rt_mdc toolbar_failing_hook root7 w0) = Some hook_error \<and>
   filter is_destroy (new_calls w0 (snd (snd (Start rt_mdc toolbar_failing_hook root7 w0)))) =
     [Call (Obj 10) ''destroy''] \<and>
   destroy_fault rt_mdc (Obj 10) = None \<and>
   GetComponent (fst (snd (Start rt_mdc toolbar_failing_hook root7 w0))) =
     Some \<lparr>mdc = Null, status = Stopped\<rparr>"
proof -
  have h: "AfterStart toolbar_failing_hook = Some (HookReturns (Some hook_error))"
    by (simp add: example_defs)
  have ok: "Start rt_mdc (toolbar_failing_hook\<lparr>AfterStart := None\<rparr>) root7 w0 =
      (None, running_toolbar, w_started)"
    by (simp add: model_defs example_defs)
  have d: "destroy_fault rt_mdc (Obj 10) = None"
    by (simp add: destroy_fault_def example_defs)
  have k: "GetComponent running_toolbar = Some \<lparr>mdc = Obj 10, status = Running\<rparr>"
    by (simp add: GetComponent_def example_defs)
  from C1_hook_error_rollback [OF h ok] k d h ok show ?thesis
    by auto
qed

text \<open>
  The claim as it was stated promises status Stopped whenever the hook fails. In the
  runtime whose \<open>destroy\<close> throws, the same toolbar starts well without the hook; with the
  hook, \<open>Start\<close> returns the hook's error and calls \<open>destroy\<close> once, but the wrapper stays
  Running with its handle.
\<close>

theorem C1_cex_destroy_throws:
  "AfterStart toolbar_failing_hook = Some (HookReturns (Some hook_error)) \<and>
   fst (Start rt_destroy_throws (toolbar_failing_hook\<lparr>AfterStart := None\<rparr>) root7 w0) = None \<and>
   fst (Start rt_destroy_throws toolbar_failing_hook root7 w0) = Some hook_error \<and>
   filter is_destroy
     (new_calls w0 (snd (snd (Start rt_destroy_throws toolbar_failing_hook root7 w0)))) =
     [Call (Obj 10) ''destroy''] \<and>
   GetComponent (fst (snd (Start rt_destroy_throws toolbar_failing_hook root7 w0))) =
     Some \<lparr>mdc = Obj 10, status = Running\<rparr> \<and>
   String_Component (GetComponent (fst (snd (Start rt_destroy_throws toolbar_failing_hook root7 w0))))
     = ''running''"
  by (simp add: model_defs example_defs new_calls_def String_Component_def Status_def)

text \<open>
  Claim C3. When \<open>AfterStart\<close> panics with a fault \<open>f\<close>, in a \<open>Start\<close> that succeeds
  when the hook is taken away, \<open>Start\<close> returns \<open>f\<close> as its error and nothing else
  happens: the owner and the world are those of the successful \<open>Start\<close>, so the wrapper is
  Running with the handle just made (the object that the construction returned, which is
  not nil), and no \<open>destroy\<close> was called.
\<close>

theorem C3_hook_panic_no_rollback:
  assumes hook: "AfterStart c = Some (HookPanics f)"
      and ok: "Start rt (c\<lparr>AfterStart := None\<rparr>) rootElem w = (None, c1, w1)"
  shows "Start rt c rootElem w = (Some (js_Error f), c1\<lparr>AfterStart := AfterStart c\<rparr>, w1) \<and>
         (\<exists>cls h. resolve_result rt c = Inr cls \<and>
            construct_result rt cls rootElem (calls w @ resolve_calls rt c) = Inr h \<and>
            h \<noteq> Null \<and> GetComponent c1 = Some \<lparr>mdc = h, status = Running\<rparr>) \<and>
         filter is_destroy (new_calls w w1) = []"
proof -
  from Start_success [OF ok] obtain cls h where
    g: "passes_guard c rootElem" and r: "resolve_result rt c = Inr cls"
    and n: "construct_result rt cls rootElem (calls w @ resolve_calls rt c) = Inr h"
    and w1: "w1 = started_world rt c cls rootElem w"
    and c1: "c1 = c\<lparr>AfterStart := None, component := Some \<lparr>mdc = h, status = Running\<rparr>\<rparr>"
    by auto
  show ?thesis
    using hook r n construct_result_Obj [OF n]
    by (simp add: Start_constructed [OF g r n] after_start_cases CatchException_def w1 c1
        GetComponent_def filter_destroy_started)
qed

theorem C3_wit_toolbar:
  "AfterStart toolbar_panicking_hook = Some (HookPanics (Thrown ''AfterStart threw'')) \<and>
   Start rt_mdc (toolbar_panicking_hook\<lparr>AfterStart := None\<rparr>) root7 w0 =
     (None, running_toolbar, w_started) \<and>
   Start rt_mdc toolbar_panicking_hook root7 w0 =
     (Some (js_Error (Thrown ''AfterStart threw'')),
      running_toolbar\<lparr>AfterStart := Some (HookPanics (Thrown ''AfterStart threw''))\<rparr>,
      w_started) \<and>
   resolve_result rt_mdc toolbar_panicking_hook = Inr (Obj 2) \<and>
   construct_result rt_mdc (Obj 2) root7
     (calls w0 @ resolve_calls rt_mdc toolbar_panicking_hook) = Inr (Obj 10) \<and>
   GetComponent running_toolbar = Some \<lparr>mdc = Obj 10, status = Running\<rparr> \<and>
   filter is_destroy (new_calls w0 w_started) = []"
proof -
  have h: "AfterStart toolbar_panicking_hook = Some (HookPanics (Thrown ''AfterStart threw''))"
    by (simp add: example_defs)
  have ok: "Start rt_mdc (toolbar_panicking_hook\<lparr>AfterStart := None\<rparr>) root7 w0 =
      (None, running_toolbar, w_started)"
    by (simp add: model_defs example_defs)
  have r: "resolve_result rt_mdc toolbar_panicking_hook = Inr (Obj 2)"
    by (simp add: resolve_result_def model_defs example_defs)
  have n: "construct_result rt_mdc (Obj 2) root7
      (calls w0 @ resolve_calls rt_mdc toolbar_panicking_hook) = Inr (Obj 10)"
    by (simp add: construct_result_def resolve_calls_def model_defs example_defs)
  from C3_hook_panic_no_rollback [OF h ok] h ok r n show ?thesis
    by auto
qed

section \<open>Status changes\<close>

text \<open>
  Claim C2, as the code has it. Every status write of a \<open>Start\<close> or a \<open>Stop\<close> is one of
  four: a new wrapper with status Uninitialized where there was none, Running over
  Uninitialized, Running over Stopped, and Stopped over Running; a \<open>Stop\<close> makes only the
  last. When \<open>Start\<close> finds no wrapper (and its mount point is not nil), its first write
  is the new wrapper, and that wrapper's status is Uninitialized, the zero value of
  \<open>&Component{}\<close>. So the chain is: no wrapper, Uninitialized, Running, Stopped, Running
  and so on; Running is entered from Uninitialized as well as from Stopped, and Stopped
  only from Running.
\<close>

theorem C2_status_transitions:
  "list_all transition_ok (new_log w (snd (snd (Start rt c rootElem w)))) \<and>
   list_all (\<lambda>t. t = (Some Running, Stopped)) (new_log w (snd (snd (Stop rt c w)))) \<and>
   (passes_guard c rootElem \<and> GetComponent c = None \<longrightarrow>
      take 1 (new_log w (snd (snd (Start rt c rootElem w)))) = [(None, Uninitialized)])"
proof (intro conjI impI)
  show "list_all (\<lambda>t. t = (Some Running, Stopped)) (new_log w (snd (snd (Stop rt c w))))"
  proof (cases "GetComponent c")
    case None
    then show ?thesis by (simp add: Stop_nil new_log_def)
  next
    case (Some k)
    then show ?thesis
      by (cases "status k = Running")
        (simp_all add: Stop_Running Stop_not_Running new_log_def split: option.splits)
  qed
next
  show "list_all transition_ok (new_log w (snd (snd (Start rt c rootElem w))))"
  proof (cases "passes_guard c rootElem")
    case False
    then show ?thesis by (simp add: Start_blocked new_log_def)
  next
    case True
    then have "\<And>k. GetComponent c = Some k \<Longrightarrow> transition_ok (Some (status k), Running)"
      by (simp add: passes_guard_def transition_ok_Running)
    then show ?thesis
      using True
      by (cases "GetComponent c")
        (simp_all add: Start_guard Start_create_eq after_start_cases Stop_handle
          CatchException_def new_log_def split: model_splits)
  qed
next
  assume "passes_guard c rootElem \<and> GetComponent c = None"
  then show "take 1 (new_log w (snd (snd (Start rt c rootElem w)))) = [(None, Uninitialized)]"
    by (simp add: Start_guard Start_create_eq after_start_cases Stop_handle
          CatchException_def new_log_def split: model_splits)
qed

text \<open>
  The toolbar with the failing hook goes through three of the four writes in one
  \<open>Start\<close>, and a \<open>Stop\<close> of the running toolbar makes the fourth kind once more.
\<close>

theorem C2_wit_toolbar:
  "passes_guard toolbar_failing_hook root7 \<and> GetComponent toolbar_failing_hook = None \<and>
   new_log w0 (snd (snd (Start rt_mdc toolbar_failing_hook root7 w0))) =
     [(None, Uninitialized), (Some Uninitialized, Running), (Some Running, Stopped)] \<and>
   list_all transition_ok (new_log w0 (snd (snd (Start rt_mdc toolbar_failing_hook root7 w0)))) \<and>
   take 1 (new_log w0 (snd (snd (Start rt_mdc toolbar_failing_hook root7 w0)))) =
     [(None, Uninitialized)] \<and>
   new_log w_started (snd (snd (Stop rt_mdc running_toolbar w_started))) =
     [(Some Running, Stopped)]"
proof -
  have g: "passes_guard toolbar_failing_hook root7 \<and> GetComponent toolbar_failing_hook = None"
    by (simp add: passes_guard_def GetComponent_def example_defs)
  have l: "new_log w0 (snd (snd (Start rt_mdc toolbar_failing_hook root7 w0))) =
     [(None, Uninitialized), (Some Uninitialized, Running), (Some Running, Stopped)]"
    by (simp add: model_defs example_defs new_log_def)
  have s: "new_log w_started (snd (snd (Stop rt_mdc running_toolbar w_started))) =
     [(Some Running, Stopped)]"
    by (simp add: model_defs example_defs new_log_def)
  from C2_status_transitions [of w0 rt_mdc toolbar_failing_hook root7] g l s show ?thesis
    by simp
qed

text \<open>
  The claim as it was stated has the new wrapper Stopped and Running entered from Stopped
  only. An owner without any capability, started on no wrapper, is left with a wrapper
  whose status is Uninitialized; and the first \<open>Start\<close> of \<open>toolbar_T\<close> succeeds with
  Running written directly over Uninitialized.
\<close>

theorem C2_cex_fresh_wrapper:
  "GetComponent bare_owner = None \<and>
   GetComponent (fst (snd (Start rt_mdc bare_owner root7 w0))) =
     Some \<lparr>mdc = Null, status = Uninitialized\<rparr> \<and>
   GetComponent toolbar_T = None \<and>
   fst (Start rt_mdc toolbar_T root7 w0) = None \<and>
   status_log (snd (snd (Start rt_mdc toolbar_T root7 w0))) =
     [(None, Uninitialized), (Some Uninitialized, Running)]"
  by (simp add: model_defs example_defs)

section \<open>The wrapper invariant\<close>

text \<open>
  Claim C4. The handle of a wrapper is non-nil exactly when its status is Running: this
  holds of the two wrappers the code allocates, and every \<open>Start\<close> and every \<open>Stop\<close>,
  whether it returns an error or not, keeps it. So it holds after every call of every
  sequence of calls on an owner that began without a wrapper, or with one for which it
  held.
\<close>

theorem C4_wrapper_invariant:
  assumes "wrapper_inv c"
  shows "wrapper_inv (fst (snd (Start rt c rootElem w))) \<and>
         wrapper_inv (fst (snd (Stop rt c w))) \<and>
         wrapper_inv (fst (run rt cs (c, w)))"
proof -
  have "wrapper_inv (fst cw) \<Longrightarrow> wrapper_inv (fst (run rt cs cw))" for cw
  proof (induction cs arbitrary: cw)
    case Nil
    then show ?case by simp
  next
    case (Cons x cs)
    show ?case
    proof (cases x)
      case (CallStart r)
      with Cons show ?thesis by (simp add: Start_wrapper_inv)
    next
      case CallStop
      with Cons show ?thesis by (simp add: Stop_wrapper_inv)
    qed
  qed
  with assms show ?thesis
    by (simp add: Start_wrapper_inv Stop_wrapper_inv)
qed

theorem C4_wit_toolbar:
  "wrapper_inv toolbar_T \<and>
   GetComponent (fst (snd (Start rt_mdc toolbar_T root7 w0))) =
     Some \<lparr>mdc = Obj 10, status = Running\<rparr> \<and>
   wrapper_inv (fst (snd (Start rt_mdc toolbar_T root7 w0))) \<and>
   wrapper_inv (fst (snd (Stop rt_mdc toolbar_T w0))) \<and>
   GetComponent (fst (run rt_mdc [CallStart root7, CallStop, CallStop] (toolbar_T, w0))) =
     Some \<lparr>mdc = Null, status = Stopped\<rparr> \<and>
   wrapper_inv (fst (run rt_mdc [CallStart root7, CallStop, CallStop] (toolbar_T, w0)))"
proof -
  have i: "wrapper_inv toolbar_T"
    by (simp add: wrapper_inv_def GetComponent_def example_defs)
  have a: "GetComponent (fst (snd (Start rt_mdc toolbar_T root7 w0))) =
     Some \<lparr>mdc = Obj 10, status = Running\<rparr>"
    by (simp add: model_defs example_defs)
  have b: "GetComponent (fst (run rt_mdc [CallStart root7, CallStop, CallStop] (toolbar_T, w0))) =
     Some \<lparr>mdc = Null, status = Stopped\<rparr>"
    by (simp add: model_defs example_defs)
  from C4_wrapper_invariant [OF i, of rt_mdc root7 w0 "[CallStart root7, CallStop, CallStop]"]
    i a b show ?thesis
    by simp
qed

section \<open>Calls in the wrong state\<close>

text \<open>
  Claim C5, as the code has it. On an owner whose wrapper is Running, \<open>Start\<close> returns
  an error and changes nothing: the owner and the world come back as they were, so no
  foreign call is made, no object is constructed, and handle and status stay. The error is
  "Component already started." for a mount point that is neither nil nor undefined; for a
  nil or undefined mount point it is "rootElem is nil.", since that case of the switch
  comes first.
\<close>

theorem C5_start_on_running:
  assumes "GetComponent c = Some k" and "status k = Running"
  shows "Start rt c rootElem w =
           (Some (errors_New (if rootElem = Null \<or> rootElem = Undefined then ''rootElem is nil.''
                              else ''Component already started.'')), c, w)"
  using assms by (simp add: Start_blocked passes_guard_def)

theorem C5_wit_running_toolbar:
  "GetComponent running_toolbar = Some running_wrapper \<and> status running_wrapper = Running \<and>
   Start rt_mdc running_toolbar root7 w_started =
     (Some (errors_New ''Component already started.''), running_toolbar, w_started)"
proof -
  have k: "GetComponent running_toolbar = Some running_wrapper"
    by (simp add: GetComponent_def example_defs)
  have r: "status running_wrapper = Running"
    by (simp add: example_defs)
  from C5_start_on_running [OF k r, of rt_mdc root7 w_started] k r show ?thesis
    by (simp add: root7_def)
qed

text \<open>
  The claim as it was stated names "already started" for every mount point. With the nil
  mount point the running toolbar gets the other error.
\<close>

theorem C5_cex_nil_root:
  "GetComponent running_toolbar = Some running_wrapper \<and> status running_wrapper = Running \<and>
   fst (Start rt_mdc running_toolbar Null w_started) = Some (errors_New ''rootElem is nil.'') \<and>
   fst (Start rt_mdc running_toolbar Null w_started) \<noteq>
     Some (errors_New ''Component already started.'')"
  by (simp add: model_defs example_defs)

text \<open>
  Claim C6. On an owner whose wrapper is Stopped or Uninitialized, \<open>Stop\<close> returns the
  error "Component already stopped" or "Component is uninitialized", and the owner and the
  world come back as they were: \<open>destroy\<close> is not called and nothing is written.
\<close>

theorem C6_stop_not_running:
  assumes "GetComponent c = Some k" and "status k = Stopped \<or> status k = Uninitialized"
  shows "Stop rt c w =
           (Some (errors_New (if status k = Stopped then ''Component already stopped''
                              else ''Component is uninitialized'')), c, w)"
  using assms by (auto simp add: Stop_not_Running)

theorem C6_wit_stopped_toolbar:
  "GetComponent stopped_toolbar = Some \<lparr>mdc = Null, status = Stopped\<rparr> \<and>
   Stop rt_mdc stopped_toolbar w0 =
     (Some (errors_New ''Component already stopped''), stopped_toolbar, w0) \<and>
   GetComponent (fst (snd (Start rt_mdc bare_owner root7 w0))) =
     Some \<lparr>mdc = Null, status = Uninitialized\<rparr> \<and>
   Stop rt_mdc (fst (snd (Start rt_mdc bare_owner root7 w0))) w0 =
     (Some (errors_New ''Component is uninitialized''),
      fst (snd (Start rt_mdc bare_owner root7 w0)), w0)"
proof -
  have k: "GetComponent stopped_toolbar = Some \<lparr>mdc = Null, status = Stopped\<rparr>"
    by (simp add: GetComponent_def example_defs)
  have u: "GetComponent (fst (snd (Start rt_mdc bare_owner root7 w0))) =
     Some \<lparr>mdc = Null, status = Uninitialized\<rparr>"
    by (simp add: model_defs example_defs)
  from C6_stop_not_running [OF k, of rt_mdc w0] C6_stop_not_running [OF u, of rt_mdc w0] k u
  show ?thesis
    by simp
qed

section \<open>Resolution of the constructor\<close>

text \<open>
  Claim C7. An owner that implements \<open>MDCClasser\<close> has its constructor taken from
  \<open>MDCClass()\<close>, whether or not it also implements \<open>ComponentTyper\<close>: \<open>Start\<close> makes no
  lookup (no \<open>js.Global.Get\<close>, no \<open>Get\<close>), and in a call that passes the first switch the
  one construction is \<open>New\<close> on that class with the mount point. A lookup is made only by
  an owner without \<open>MDCClasser\<close>. An owner with neither capability gets an error from
  every \<open>Start\<close>, with no foreign call made and no object constructed; in a call that
  passes the first switch (mount point not nil, wrapper not Running, which are checked
  before the resolution) the error is the one of the default case of the type switch.
\<close>

theorem C7_explicit_class_first:
  "(MDCClass c = Some cls \<longrightarrow>
      filter is_lookup (new_calls w (snd (snd (Start rt c rootElem w)))) = [] \<and>
      (passes_guard c rootElem \<longrightarrow>
         filter is_New (new_calls w (snd (snd (Start rt c rootElem w)))) = [New cls rootElem])) \<and>
   (filter is_lookup (new_calls w (snd (snd (Start rt c rootElem w)))) \<noteq> [] \<longrightarrow>
      MDCClass c = None) \<and>
   (MDCClass c = None \<and> ComponentType c = None \<longrightarrow>
      fst (Start rt c rootElem w) \<noteq> None \<and>
      calls (snd (snd (Start rt c rootElem w))) = calls w \<and>
      constructed (snd (snd (Start rt c rootElem w))) = constructed w \<and>
      (passes_guard c rootElem \<longrightarrow>
         fst (Start rt c rootElem w) = Some (errors_New
           ''The provided component does not implement component.ComponentTyper or component.MDCClasser.'')))"
proof -
  have explicit: "filter is_lookup (new_calls w (snd (snd (Start rt c rootElem w)))) = [] \<and>
      (passes_guard c rootElem \<longrightarrow>
         filter is_New (new_calls w (snd (snd (Start rt c rootElem w)))) = [New cl rootElem])"
    if m: "MDCClass c = Some cl" for cl
  proof (cases "passes_guard c rootElem")
    case False
    then show ?thesis by (simp add: Start_blocked new_calls_def)
  next
    case True
    then show ?thesis
      using resolve_MDCClass [OF m, of rt]
      by (cases "GetComponent c")
        (simp_all add: Start_guard Start_create_eq after_start_cases Stop_handle
          CatchException_def new_calls_def split: model_splits)
  qed
  have neither: "fst (Start rt c rootElem w) \<noteq> None \<and>
      calls (snd (snd (Start rt c rootElem w))) = calls w \<and>
      constructed (snd (snd (Start rt c rootElem w))) = constructed w \<and>
      (passes_guard c rootElem \<longrightarrow>
         fst (Start rt c rootElem w) = Some (errors_New
           ''The provided component does not implement component.ComponentTyper or component.MDCClasser.''))"
    if m: "MDCClass c = None" and t: "ComponentType c = None"
  proof (cases "passes_guard c rootElem")
    case False
    then show ?thesis by (simp add: Start_blocked)
  next
    case True
    then show ?thesis
      using resolve_no_capability [OF m t, of rt]
      by (cases "GetComponent c")
        (simp_all add: Start_guard Start_create_eq CatchException_def)
  qed
  from explicit neither show ?thesis
    by (cases "MDCClass c") auto
qed

text \<open>
  Three owners in the runtime \<open>rt_mdc\<close>: the toolbar with both capabilities constructs
  from its class with no lookup; the toolbar with the named lookup only makes the three
  lookups; the owner with neither capability gets the error and no call is made.
\<close>

theorem C7_wit_three_owners:
  "MDCClass toolbar_with_class = Some (Obj 2) \<and>
   ComponentType toolbar_with_class \<noteq> None \<and>
   passes_guard toolbar_with_class root7 \<and>
   fst (Start rt_mdc toolbar_with_class root7 w0) = None \<and>
   new_calls w0 (snd (snd (Start rt_mdc toolbar_with_class root7 w0))) = [New (Obj 2) root7] \<and>
   filter is_lookup (new_calls w0 (snd (snd (Start rt_mdc toolbar_with_class root7 w0)))) = [] \<and>
   filter is_New (new_calls w0 (snd (snd (Start rt_mdc toolbar_with_class root7 w0)))) =
     [New (Obj 2) root7] \<and>
   filter is_lookup (new_calls w0 (snd (snd (Start rt_mdc toolbar_T root7 w0)))) =
     [Global_Get ''mdc'', Get (Obj 0) ''textField'', Get (Obj 1) ''MDCTextField''] \<and>
   MDCClass toolbar_T = None \<and>
   MDCClass bare_owner = None \<and> ComponentType bare_owner = None \<and>
   passes_guard bare_owner root7 \<and>
   Start rt_mdc bare_owner root7 w0 =
     (Some (errors_New
        ''The provided component does not implement component.ComponentTyper or component.MDCClasser.''),
      bare_owner\<lparr>component := Some \<lparr>mdc = Null, status = Uninitialized\<rparr>\<rparr>,
      w0\<lparr>status_log := [(None, Uninitialized)]\<rparr>)"
proof -
  have both: "MDCClass toolbar_with_class = Some (Obj 2) \<and>
      ComponentType toolbar_with_class \<noteq> None \<and> passes_guard toolbar_with_class root7"
    by (simp add: passes_guard_def GetComponent_def example_defs)
  have s1: "fst (Start rt_mdc toolbar_with_class root7 w0) = None \<and>
      new_calls w0 (snd (snd (Start rt_mdc toolbar_with_class root7 w0))) = [New (Obj 2) root7]"
    by (simp add: model_defs example_defs new_calls_def)
  have s2: "filter is_lookup (new_calls w0 (snd (snd (Start rt_mdc toolbar_T root7 w0)))) =
     [Global_Get ''mdc'', Get (Obj 0) ''textField'', Get (Obj 1) ''MDCTextField'']"
    by (simp add: model_defs example_defs new_calls_def)
  have none: "MDCClass bare_owner = None \<and> ComponentType bare_owner = None \<and>
      passes_guard bare_owner root7"
    by (simp add: passes_guard_def GetComponent_def example_defs)
  have s3: "Start rt_mdc bare_owner root7 w0 =
     (Some (errors_New
        ''The provided component does not implement component.ComponentTyper or component.MDCClasser.''),
      bare_owner\<lparr>component := Some \<lparr>mdc = Null, status = Uninitialized\<rparr>\<rparr>,
      w0\<lparr>status_log := [(None, Uninitialized)]\<rparr>)"
    by (simp add: model_defs example_defs)
  from C7_explicit_class_first [of toolbar_with_class "Obj 2" w0 rt_mdc root7]
    C7_explicit_class_first [of toolbar_T "Obj 2" w0 rt_mdc root7]
    C7_explicit_class_first [of bare_owner "Obj 2" w0 rt_mdc root7]
    both s1 s2 none s3
  show ?thesis
    by simp
qed

text \<open>
  Claim C8. An owner that uses the named lookup (no \<open>MDCClasser\<close>) and whose
  \<open>ComponentType\<close> has an empty name gets an error from every \<open>Start\<close>, and no foreign
  call is made: the call record and the count of constructions are as before. The status the
  owner shows (\<open>String\<close>) is as before; a wrapper that existed is untouched, and where
  there was none the new one is Uninitialized, which is what no wrapper shows. In a call
  that passes the first switch the error is "Empty string in ComponentType".
\<close>

theorem C8_empty_name:
  assumes m: "MDCClass c = None" and t: "ComponentType c = Some t"
      and e: "MDCCamelCaseName t = [] \<or> MDCClassName t = []"
  shows "\<exists>err c' w'. Start rt c rootElem w = (Some err, c', w') \<and>
           calls w' = calls w \<and> constructed w' = constructed w \<and>
           String_Component (GetComponent c') = String_Component (GetComponent c) \<and>
           (GetComponent c \<noteq> None \<longrightarrow> c' = c) \<and>
           (passes_guard c rootElem \<longrightarrow> err = errors_New ''Empty string in ComponentType'')"
proof (cases "passes_guard c rootElem")
  case False
  then show ?thesis by (simp add: Start_blocked)
next
  case True
  then show ?thesis
    using resolve_empty_name [OF m t e, of rt]
    by (cases "GetComponent c")
      (simp_all add: Start_guard Start_create_eq CatchException_def String_Component_def
        GetComponent_def)
qed

theorem C8_wit_unnamed_toolbar:
  "MDCClass toolbar_unnamed = None \<and>
   ComponentType toolbar_unnamed = Some \<lparr>MDCClassName = [], MDCCamelCaseName = ''textField''\<rparr> \<and>
   passes_guard toolbar_unnamed root7 \<and>
   fst (Start rt_mdc toolbar_unnamed root7 w0) = Some (errors_New ''Empty string in ComponentType'') \<and>
   calls (snd (snd (Start rt_mdc toolbar_unnamed root7 w0))) = calls w0 \<and>
   constructed (snd (snd (Start rt_mdc toolbar_unnamed root7 w0))) = constructed w0 \<and>
   String_Component (GetComponent (fst (snd (Start rt_mdc toolbar_unnamed root7 w0)))) =
     ''uninitialized'' \<and>
   String_Component (GetComponent toolbar_unnamed) = ''uninitialized''"
proof -
  have m: "MDCClass toolbar_unnamed = None"
    by (simp add: example_defs)
  have t: "ComponentType toolbar_unnamed =
      Some \<lparr>MDCClassName = [], MDCCamelCaseName = ''textField''\<rparr>"
    by (simp add: example_defs)
  have e: "MDCCamelCaseName \<lparr>MDCClassName = [], MDCCamelCaseName = ''textField''\<rparr> = [] \<or>
      MDCClassName \<lparr>MDCClassName = [], MDCCamelCaseName = ''textField''\<rparr> = []"
    by simp
  have g: "passes_guard toolbar_unnamed root7"
    by (simp add: passes_guard_def GetComponent_def example_defs)
  have s: "String_Component (GetComponent toolbar_unnamed) = ''uninitialized''"
    by (simp add: String_Component_def GetComponent_def example_defs)
  from C8_empty_name [OF m t e, of rt_mdc root7 w0] m t g s show ?thesis
    by auto
qed

section \<open>Stopping and starting again\<close>

text \<open>
  Claim C9, as the code has it. After a \<open>Start\<close> that succeeded, if \<open>destroy\<close> on the
  handle it stored does not throw, \<open>Stop\<close> succeeds and leaves a new Stopped wrapper
  without a handle. That wrapper is all a later \<open>Start\<close> takes over from before: the class
  is resolved again, the constructor is called again with the mount point, and the hook is
  run again. So take the owner \<open>c'\<close> and the runtime \<open>rt'\<close> as the second \<open>Start\<close> meets
  them, where only the wrapper is known to be the one \<open>Stop\<close> left (\<open>c'\<close> may be the owner
  \<open>Stop\<close> returned and \<open>rt'\<close> the runtime of before, and they need not be). If the
  resolution then gives a class, the construction returns an object \<open>h'\<close> and the hook
  does not fail, the second \<open>Start\<close> with the same mount point succeeds, makes exactly that
  one construction, and stores \<open>h'\<close>, which is not nil. The second handle is therefore
  another object than the first exactly when the constructor returned another object;
  \<open>Start\<close> does not take the first handle over, and it does not make the objects differ.
\<close>

theorem C9_start_stop_start:
  assumes first: "Start rt c rootElem w = (None, c1, w1)"
      and k1: "GetComponent c1 = Some k1"
      and nofault: "destroy_fault rt (mdc k1) = None"
  shows "\<exists>c2 w2.
           Stop rt c1 w1 = (None, c2, w2) \<and>
           GetComponent c2 = Some \<lparr>mdc = Null, status = Stopped\<rparr> \<and>
           mdc k1 \<noteq> Null \<and>
           (\<forall>rt' c' cls' h'.
              GetComponent c' = GetComponent c2 \<longrightarrow>
              resolve_result rt' c' = Inr cls' \<longrightarrow>
              construct_result rt' cls' rootElem (calls w2 @ resolve_calls rt' c') = Inr h' \<longrightarrow>
              (AfterStart c' = None \<or> AfterStart c' = Some (HookReturns None)) \<longrightarrow>
              (\<exists>c3 w3.
                 Start rt' c' rootElem w2 = (None, c3, w3) \<and>
                 GetComponent c3 = Some \<lparr>mdc = h', status = Running\<rparr> \<and>
                 h' \<noteq> Null \<and>
                 filter is_New (new_calls w2 w3) = [New cls' rootElem] \<and>
                 (map_option mdc (GetComponent c3) \<noteq> Some (mdc k1)) = (h' \<noteq> mdc k1)))"
proof -
  from Start_success [OF first] obtain cls h where
    g: "passes_guard c rootElem"
    and n: "construct_result rt cls rootElem (calls w @ resolve_calls rt c) = Inr h"
    and c1: "c1 = c\<lparr>component := Some \<lparr>mdc = h, status = Running\<rparr>\<rparr>"
    by auto
  from k1 c1 have k1_eq: "k1 = \<lparr>mdc = h, status = Running\<rparr>"
    by (simp add: GetComponent_def)
  let ?c2 = "c\<lparr>component := Some \<lparr>mdc = Null, status = Stopped\<rparr>\<rparr>"
  let ?w2 = "w1\<lparr>calls := calls w1 @ [Call (mdc k1) ''destroy''],
                 status_log := status_log w1 @ [(Some Running, Stopped)]\<rparr>"
  have st: "status k1 = Running"
    by (simp add: k1_eq)
  have stop: "Stop rt c1 w1 = (None, ?c2, ?w2)"
    using nofault Stop_Running [OF k1 st, of rt w1] by (simp add: c1)
  have c2: "GetComponent ?c2 = Some \<lparr>mdc = Null, status = Stopped\<rparr>"
    by (simp add: GetComponent_def)
  have h: "mdc k1 \<noteq> Null"
    using construct_result_Obj [OF n] by (simp add: k1_eq)
  have root: "rootElem \<noteq> Null \<and> rootElem \<noteq> Undefined"
    using g by (simp add: passes_guard_def)
  have second: "\<exists>c3 w3.
      Start rt' c' rootElem ?w2 = (None, c3, w3) \<and>
      GetComponent c3 = Some \<lparr>mdc = h', status = Running\<rparr> \<and>
      h' \<noteq> Null \<and>
      filter is_New (new_calls ?w2 w3) = [New cls' rootElem] \<and>
      (map_option mdc (GetComponent c3) \<noteq> Some (mdc k1)) = (h' \<noteq> mdc k1)"
    if same: "GetComponent c' = GetComponent ?c2"
      and r': "resolve_result rt' c' = Inr cls'"
      and n': "construct_result rt' cls' rootElem (calls ?w2 @ resolve_calls rt' c') = Inr h'"
      and hook': "AfterStart c' = None \<or> AfterStart c' = Some (HookReturns None)"
    for rt' c' cls' h'
  proof -
    have g': "passes_guard c' rootElem"
      using root same c2 by (simp add: passes_guard_def)
    have lk: "filter is_New (resolve_calls rt' c') = []"
      using resolve_calls_lookup [of rt' c'] by (simp add: filter_is_New_lookup)
    show ?thesis
      using hook' lk construct_result_Obj [OF n']
      by (auto simp add: Start_constructed [OF g' r' n'] after_start_cases CatchException_def
          GetComponent_def started_world_def new_calls_def)
  qed
  from stop c2 h second show ?thesis
    by blast
qed

text \<open>
  The toolbar in the runtime where nothing throws and every construction returns a new
  object: the first handle is object 10, \<open>Stop\<close> succeeds, and the second \<open>Start\<close> of the
  stopped toolbar succeeds with object 11.
\<close>

theorem C9_wit_toolbar:
  "Start rt_mdc toolbar_T root7 w0 = (None, running_toolbar, w_started) \<and>
   GetComponent running_toolbar = Some running_wrapper \<and>
   mdc running_wrapper = Obj 10 \<and>
   destroy_fault rt_mdc (mdc running_wrapper) = None \<and>
   Stop rt_mdc running_toolbar w_started = (None, stopped_toolbar, w_stopped) \<and>
   GetComponent stopped_toolbar = Some \<lparr>mdc = Null, status = Stopped\<rparr> \<and>
   resolve_result rt_mdc stopped_toolbar = Inr (Obj 2) \<and>
   construct_result rt_mdc (Obj 2) root7 (calls w_stopped @ resolve_calls rt_mdc stopped_toolbar) =
     Inr (Obj 11) \<and>
   AfterStart stopped_toolbar = None \<and>
   fst (Start rt_mdc stopped_toolbar root7 w_stopped) = None \<and>
   GetComponent (fst (snd (Start rt_mdc stopped_toolbar root7 w_stopped))) =
     Some \<lparr>mdc = Obj 11, status = Running\<rparr> \<and>
   filter is_New (new_calls w_stopped (snd (snd (Start rt_mdc stopped_toolbar root7 w_stopped)))) =
     [New (Obj 2) root7]"
proof -
  have first: "Start rt_mdc toolbar_T root7 w0 = (None, running_toolbar, w_started)"
    by (simp add: model_defs example_defs)
  have k: "GetComponent running_toolbar = Some running_wrapper"
    by (simp add: GetComponent_def example_defs)
  have m: "mdc running_wrapper = Obj 10"
    by (simp add: example_defs)
  have d: "destroy_fault rt_mdc (mdc running_wrapper) = None"
    by (simp add: destroy_fault_def example_defs)
  have stop: "Stop rt_mdc running_toolbar w_started = (None, stopped_toolbar, w_stopped)"
    by (simp add: model_defs example_defs)
  have r: "resolve_result rt_mdc stopped_toolbar = Inr (Obj 2)"
    by (simp add: resolve_result_def model_defs example_defs)
  have n: "construct_result rt_mdc (Obj 2) root7
      (calls w_stopped @ resolve_calls rt_mdc stopped_toolbar) = Inr (Obj 11)"
    by (simp add: construct_result_def resolve_calls_def model_defs example_defs)
  have a: "AfterStart stopped_toolbar = None"
    by (simp add: example_defs)
  from C9_start_stop_start [OF first k d] obtain c2 w2 where
    s: "Stop rt_mdc running_toolbar w_started = (None, c2, w2)"
    and again: "\<forall>rt' c' cls' h'.
      GetComponent c' = GetComponent c2 \<longrightarrow>
      resolve_result rt' c' = Inr cls' \<longrightarrow>
      construct_result rt' cls' root7 (calls w2 @ resolve_calls rt' c') = Inr h' \<longrightarrow>
      (AfterStart c' = None \<or> AfterStart c' = Some (HookReturns None)) \<longrightarrow>
      (\<exists>c3 w3.
         Start rt' c' root7 w2 = (None, c3, w3) \<and>
         GetComponent c3 = Some \<lparr>mdc = h', status = Running\<rparr> \<and>
         h' \<noteq> Null \<and>
         filter is_New (new_calls w2 w3) = [New cls' root7] \<and>
         (map_option mdc (GetComponent c3) \<noteq> Some (mdc running_wrapper)) =
           (h' \<noteq> mdc running_wrapper))"
    by blast
  from s stop have e: "c2 = stopped_toolbar" "w2 = w_stopped"
    by simp_all
  from again [unfolded e, rule_format, OF refl r n] a
  have "\<exists>c3 w3. Start rt_mdc stopped_toolbar root7 w_stopped = (None, c3, w3) \<and>
      GetComponent c3 = Some \<lparr>mdc = Obj 11, status = Running\<rparr> \<and>
      filter is_New (new_calls w_stopped w3) = [New (Obj 2) root7]"
    by blast
  with first k m d stop r n a show ?thesis
    by (auto simp add: GetComponent_def example_defs)
qed

text \<open>
  The claim as it was stated promises that every step succeeds once the first \<open>Start\<close>
  did, and that the second handle is another instance. Three runtimes in which the first
  \<open>Start\<close> of the toolbar succeeds: where \<open>destroy\<close> throws, the \<open>Stop\<close> returns the
  fault; where the constructor returns the instance it has kept, both steps succeed and
  the second \<open>Start\<close> stores object 10 again; where the constructor throws the second
  time, the second \<open>Start\<close> returns the fault.
\<close>

theorem C9_cex_three_runtimes:
  "Start rt_destroy_throws toolbar_T root7 w0 = (None, running_toolbar, w_started) \<and>
   fst (Stop rt_destroy_throws running_toolbar w_started) =
     Some (js_Error (Thrown ''destroy failed'')) \<and>
   Start rt_cached toolbar_T root7 w0 = (None, running_toolbar, w_started) \<and>
   Stop rt_cached running_toolbar w_started = (None, stopped_toolbar, w_stopped) \<and>
   fst (Start rt_cached stopped_toolbar root7 w_stopped) = None \<and>
   GetComponent running_toolbar = Some \<lparr>mdc = Obj 10, status = Running\<rparr> \<and>
   GetComponent (fst (snd (Start rt_cached stopped_toolbar root7 w_stopped))) =
     Some \<lparr>mdc = Obj 10, status = Running\<rparr> \<and>
   Start rt_once toolbar_T root7 w0 = (None, running_toolbar, w_started) \<and>
   Stop rt_once running_toolbar w_started = (None, stopped_toolbar, w_stopped) \<and>
   fst (Start rt_once stopped_toolbar root7 w_stopped) =
     Some (js_Error (Thrown ''already attached''))"
  by (simp add: model_defs example_defs)

text \<open>
  Claim C10. When \<open>destroy\<close> throws a fault \<open>f\<close> in a \<open>Stop\<close> on a Running wrapper,
  \<open>Stop\<close> returns \<open>f\<close> as its error and the owner comes back as it was: the same wrapper,
  still Running, still with its handle. Only the call record has grown, by the \<open>destroy\<close>
  that failed. A second \<open>Stop\<close> therefore meets the same Running wrapper and calls
  \<open>destroy\<close> again.
\<close>

theorem C10_destroy_fault_keeps_running:
  assumes "GetComponent c = Some k" and "status k = Running"
      and "destroy_fault rt (mdc k) = Some f"
  shows "Stop rt c w =
           (Some (js_Error f), c, w\<lparr>calls := calls w @ [Call (mdc k) ''destroy'']\<rparr>) \<and>
         new_calls w (snd (snd (Stop rt (fst (snd (Stop rt c w))) (snd (snd (Stop rt c w)))))) =
           [Call (mdc k) ''destroy'', Call (mdc k) ''destroy'']"
  using assms by (simp add: Stop_Running new_calls_def)

theorem C10_wit_running_toolbar:
  "GetComponent running_toolbar = Some running_wrapper \<and> status running_wrapper = Running \<and>
   destroy_fault rt_destroy_throws (mdc running_wrapper) = Some (Thrown ''destroy failed'') \<and>
   Stop rt_destroy_throws running_toolbar w_started =
     (Some (js_Error (Thrown ''destroy failed'')), running_toolbar,
      w_started\<lparr>calls := calls w_started @ [Call (Obj 10) ''destroy'']\<rparr>)"
proof -
  have k: "GetComponent running_toolbar = Some running_wrapper"
    by (simp add: GetComponent_def example_defs)
  have r: "status running_wrapper = Running"
    by (simp add: example_defs)
  have d: "destroy_fault rt_destroy_throws (mdc running_wrapper) = Some (Thrown ''destroy failed'')"
    by (simp add: destroy_fault_def example_defs)
  have m: "mdc running_wrapper = Obj 10"
    by (simp add: example_defs)
  from C10_destroy_fault_keeps_running [OF k r d, of w_started] k r d m show ?thesis
    by simp
qed

end
